theory Spec2Isabelle
  imports Main
begin

section \<open>cfdnsupdater: data model\<close>

text \<open>
  The program is one Go file, \<^verbatim>\<open>cfdnsupdater.go\<close> (the older copy of it that logs through
  logrus has the same control flow in every function modelled here). Go strings are byte
  sequences, so they are \<^typ>\<open>string\<close>. A Go \<^verbatim>\<open>error\<close> is an interface value that is
  \<^verbatim>\<open>nil\<close> or carries a message: \<open>None\<close> is \<^verbatim>\<open>nil\<close>, \<open>Some (Error m)\<close> a non-nil error.
  Library calls that return \<^verbatim>\<open>(value, err)\<close> return a pair here as well, so that each
  \<^verbatim>\<open>if err != nil\<close> of the source is an \<open>if\<close> of the model.
  Calls to the loggers are left out: they change neither the control flow nor the state
  the claims speak about.
\<close>

datatype error = Error string

definition errors_New :: "string \<Rightarrow> error option" where
  "errors_New msg = Some (Error msg)"

record CFUpdateConfig =
  Zone :: string
  Host :: string
  Email :: string
  ApiKey :: string
  IPService :: string

text \<open>
  The types of the cloudflare-go library are declared outside the repository. The DNS
  record carries an opaque ID and the attributes name, type and content; the parameter
  structs have the fields the source sets, and the update parameters also the fields
  \<^verbatim>\<open>Type\<close> and \<^verbatim>\<open>Name\<close> that the source leaves at Go's zero value (the empty string).
\<close>

record DNSRecord =
  rec_ID :: string
  rec_Type :: string
  rec_Name :: string
  rec_Content :: string

record ListDNSRecordsParams =
  lp_Name :: string
  lp_Type :: string

record CreateDNSRecordParams =
  cp_Name :: string
  cp_Type :: string
  cp_Content :: string

record UpdateDNSRecordParams =
  up_ID :: string
  up_Type :: string
  up_Name :: string
  up_Content :: string

record http_Response =
  StatusCode :: int
  Status :: string
  ReadAll_Body :: "string \<times> error option"

text \<open>
  Every call of \<^verbatim>\<open>client.Do\<close> and of the cloudflare-go library (\<^verbatim>\<open>cloudflare.New\<close>
  and the four API methods) is recorded with its arguments, in order, in \<open>calls\<close>. The
  update counter is the prometheus counter \<^verbatim>\<open>updateCount\<close>; the source only ever
  calls \<^verbatim>\<open>Inc\<close> on it, so it is a natural number.
\<close>

datatype call =
    Call_Do string string
  | Call_New string string
  | Call_ZoneIDByName string
  | Call_ListDNSRecords string ListDNSRecordsParams
  | Call_CreateDNSRecord string CreateDNSRecordParams
  | Call_UpdateDNSRecord string UpdateDNSRecordParams

record state =
  updateCount :: nat
  calls :: "call list"

definition Inc :: "state \<Rightarrow> state" where
  "Inc s = s\<lparr>updateCount := updateCount s + 1\<rparr>"

definition record_call :: "call \<Rightarrow> state \<Rightarrow> state" where
  "record_call c s = s\<lparr>calls := calls s @ [c]\<rparr>"

text \<open>
  What the outside world answers during one run of \<^verbatim>\<open>getIP\<close> and \<^verbatim>\<open>updateHost\<close>.
  Each of the two functions makes each library call at most once, with arguments that
  the earlier answers determine, so one answer per call and argument describes every
  possible run. \<open>Version\<close> is the constant that \<^verbatim>\<open>genversion.go\<close> writes at build time.
\<close>

record env =
  Version :: string
  http_NewRequest :: "string \<Rightarrow> string \<Rightarrow> error option"
  client_Do :: "string \<Rightarrow> http_Response \<times> error option"
  cloudflare_New :: "string \<Rightarrow> string \<Rightarrow> error option"
  api_ZoneIDByName :: "string \<Rightarrow> string \<times> error option"
  api_ListDNSRecords :: "string \<Rightarrow> ListDNSRecordsParams \<Rightarrow> DNSRecord list \<times> error option"
  api_CreateDNSRecord :: "string \<Rightarrow> CreateDNSRecordParams \<Rightarrow> error option"
  api_UpdateDNSRecord :: "string \<Rightarrow> UpdateDNSRecordParams \<Rightarrow> error option"

section \<open>Startup: flags and validation\<close>

text \<open>The values of the command-line flags after \<^verbatim>\<open>flag.Parse()\<close>.\<close>

record flags =
  flag_debug :: bool
  flag_noJSON :: bool
  flag_zone :: string
  flag_host :: string
  flag_email :: string
  flag_apiKey :: string
  flag_ipService :: string
  flag_listen :: string
  flag_urlprefix :: string
  flag_showVersion :: bool
  flag_sleepinterval :: nat

text \<open>
  \<^verbatim>\<open>strings.HasSuffix(s, suffix)\<close> of the Go library:
  \<^verbatim>\<open>len(s) >= len(suffix) && s[len(s)-len(suffix):] == suffix\<close>.
\<close>

definition HasSuffix :: "string \<Rightarrow> string \<Rightarrow> bool" where
  "HasSuffix s suf =
     (length s \<ge> length suf \<and> drop (length s - length suf) s = suf)"

text \<open>
  The checks of \<^verbatim>\<open>main\<close> between the logger set-up and the start of the update loop,
  in the order of the source. Each failing check logs and calls \<^verbatim>\<open>os.Exit(1)\<close>;
  the result is the exit status, or \<open>None\<close> when every check passes.
\<close>

definition startup_validation :: "flags \<Rightarrow> nat option" where
  "startup_validation f =
     (if length (flag_urlprefix f) > 0 \<and> flag_urlprefix f ! 0 \<noteq> CHR ''/'' then Some 1
      else if flag_zone f = '''' then Some 1
      else if flag_host f = '''' then Some 1
      else if \<not> HasSuffix (flag_host f) (flag_zone f) then Some 1
      else if flag_email f = '''' then Some 1
      else if flag_apiKey f = '''' then Some 1
      else None)"

text \<open>
  Go's conversion of an integer to \<^verbatim>\<open>int64\<close> and the product of two \<^verbatim>\<open>int64\<close> wrap
  around: \<open>wrap_int64\<close> is the value in the range from \<open>- 2 ^ 63\<close> to \<open>2 ^ 63 - 1\<close>.
  The sleep interval of the loop is \<^verbatim>\<open>time.Duration(*sleepinterval)*time.Second\<close>, a
  number of nanoseconds (\<^verbatim>\<open>time.Second\<close> is 1000000000).
\<close>

definition wrap_int64 :: "int \<Rightarrow> int" where
  "wrap_int64 x = (x + 2 ^ 63) mod 2 ^ 64 - 2 ^ 63"

definition sleep_Duration :: "nat \<Rightarrow> int" where
  "sleep_Duration n = wrap_int64 (wrap_int64 (int n) * 1000000000)"

text \<open>
  \<^verbatim>\<open>main\<close> up to the call of \<^verbatim>\<open>http.ListenAndServe\<close>. After the validation the update
  loop is started with the configuration and the sleep interval, and the three routes are
  registered in order with \<^verbatim>\<open>http.Handle\<close> and \<^verbatim>\<open>http.HandleFunc\<close>. These panic when
  the default multiplexer does not accept the pattern (a pattern that does not parse, or
  one in conflict with a pattern registered before); whether it accepts a pattern, given
  the patterns registered so far, is the parameter \<open>accepts\<close>, since the multiplexer is
  library code. A panic ends the process (with status 2) before the server is started.
  The outcomes: the process exits through \<^verbatim>\<open>os.Exit\<close> with a status, it panics while
  registering a route, or the loop runs with a configuration and a sleep interval and
  the server is started on the listen address with its three routes.
\<close>

datatype main_outcome =
    Exit nat
  | Panic
  | ListenAndServe CFUpdateConfig int "string list" string

definition main :: "(string list \<Rightarrow> string \<Rightarrow> bool) \<Rightarrow> flags \<Rightarrow> main_outcome" where
  "main accepts f =
     (if flag_showVersion f then Exit 0
      else case startup_validation f of
        Some status \<Rightarrow> Exit status
      | None \<Rightarrow>
          let config = \<lparr>Zone = flag_zone f, Host = flag_host f, Email = flag_email f,
                        ApiKey = flag_apiKey f, IPService = flag_ipService f\<rparr>;
              sleep = sleep_Duration (flag_sleepinterval f);
              murl = flag_urlprefix f @ ''/metrics'';
              rurl = flag_urlprefix f @ ''/ready'';
              aurl = flag_urlprefix f @ ''/alive''
          in if \<not> accepts [] murl then Panic
             else if \<not> accepts [murl] rurl then Panic
             else if \<not> accepts [murl, rurl] aurl then Panic
             else ListenAndServe config sleep [murl, rurl, aurl] (flag_listen f))"

section \<open>The IP resolver\<close>

text \<open>
  \<^verbatim>\<open>strings.TrimSpace\<close> of the Go library removes every leading and every trailing
  white-space code point of the UTF-8 string, white space being \<^verbatim>\<open>unicode.IsSpace\<close>:
  the six ASCII characters tab, line feed, vertical tab, form feed, carriage return and
  space, and U+0085, U+00A0, U+1680, U+2000 to U+200A, U+2028, U+2029, U+202F, U+205F
  and U+3000. On bytes: a string starts (ends) with a white-space code point exactly when
  it starts (ends) with that code point's UTF-8 encoding, since every other decoding,
  also of invalid bytes, gives a code point that is not white space.
\<close>

definition asciiSpace :: "char \<Rightarrow> bool" where
  "asciiSpace c =
     (c = CHR 0x09 \<or> c = CHR 0x0A \<or> c = CHR 0x0B \<or> c = CHR 0x0C \<or> c = CHR 0x0D \<or> c = CHR 0x20)"

definition unicodeSpace :: "string list" where
  "unicodeSpace =
     [[CHR 0xC2, CHR 0x85], [CHR 0xC2, CHR 0xA0], [CHR 0xE1, CHR 0x9A, CHR 0x80],
      [CHR 0xE2, CHR 0x80, CHR 0x80], [CHR 0xE2, CHR 0x80, CHR 0x81],
      [CHR 0xE2, CHR 0x80, CHR 0x82], [CHR 0xE2, CHR 0x80, CHR 0x83],
      [CHR 0xE2, CHR 0x80, CHR 0x84], [CHR 0xE2, CHR 0x80, CHR 0x85],
      [CHR 0xE2, CHR 0x80, CHR 0x86], [CHR 0xE2, CHR 0x80, CHR 0x87],
      [CHR 0xE2, CHR 0x80, CHR 0x88], [CHR 0xE2, CHR 0x80, CHR 0x89],
      [CHR 0xE2, CHR 0x80, CHR 0x8A], [CHR 0xE2, CHR 0x80, CHR 0xA8],
      [CHR 0xE2, CHR 0x80, CHR 0xA9], [CHR 0xE2, CHR 0x80, CHR 0xAF],
      [CHR 0xE2, CHR 0x81, CHR 0x9F], [CHR 0xE3, CHR 0x80, CHR 0x80]]"

text \<open>
  The number of bytes of the white-space code point at the start (at the end) of a
  string, 0 when there is none.
\<close>

definition leadingSpace :: "string \<Rightarrow> nat" where
  "leadingSpace s =
     (case s of
        [] \<Rightarrow> 0
      | c # _ \<Rightarrow>
          if asciiSpace c then 1
          else (case find (\<lambda>enc. take (length enc) s = enc) unicodeSpace of
                  None \<Rightarrow> 0
                | Some enc \<Rightarrow> length enc))"

definition trailingSpace :: "string \<Rightarrow> nat" where
  "trailingSpace s =
     (if s = [] then 0
      else if asciiSpace (last s) then 1
      else (case find (\<lambda>enc. HasSuffix s enc) unicodeSpace of
              None \<Rightarrow> 0
            | Some enc \<Rightarrow> length enc))"

fun TrimLeft :: "string \<Rightarrow> string" where
  "TrimLeft [] = []"
| "TrimLeft (c # cs) =
     (if leadingSpace (c # cs) = 0 then c # cs
      else TrimLeft (drop (leadingSpace (c # cs) - 1) cs))"

function TrimRight :: "string \<Rightarrow> string" where
  "TrimRight s =
     (if trailingSpace s = 0 then s
      else TrimRight (take (length s - trailingSpace s) s))"
  by pat_completeness auto
termination
  by (relation "measure length") (auto simp: trailingSpace_def split: if_splits)

declare TrimRight.simps [simp del]

definition TrimSpace :: "string \<Rightarrow> string" where
  "TrimSpace s = TrimRight (TrimLeft s)"

text \<open>
  \<^verbatim>\<open>getIP\<close>. The request is built by \<^verbatim>\<open>http.NewRequest("GET", ip_service, nil)\<close>, gets
  its User-Agent header and is sent by \<^verbatim>\<open>client.Do\<close>; the call is recorded with the URL
  and the header. \<^verbatim>\<open>http.StatusOK\<close> is 200.
\<close>

definition getIP :: "env \<Rightarrow> string \<Rightarrow> state \<Rightarrow> (string \<times> error option) \<times> state" where
  "getIP e ip_service s =
     (let err = http_NewRequest e ''GET'' ip_service in
      if err \<noteq> None then (('''', err), s)
      else
        let s1 = record_call (Call_Do ip_service (''cfdnsupdater/'' @ Version e)) s;
            (res, err) = client_Do e ip_service in
        if err \<noteq> None then (('''', err), s1)
        else if StatusCode res \<noteq> 200 then
          (('''', errors_New (''Unexpected HTTP status '' @ Status res)), s1)
        else
          let (b, err) = ReadAll_Body res in
          if err \<noteq> None then (('''', err), s1)
          else ((TrimSpace b, None), s1))"

section \<open>The DNS reconciler\<close>

text \<open>
  \<^verbatim>\<open>updateHost\<close>. The variable \<open>err\<close> of the source is the \<open>err\<close> of the model: the one
  assigned by \<^verbatim>\<open>ListDNSRecords\<close> is still in scope in the \<^verbatim>\<open>switch\<close>, where \<^verbatim>\<open>case 0\<close>
  declares a new one (\<^verbatim>\<open>:=\<close>), \<^verbatim>\<open>case 1\<close> assigns it and \<^verbatim>\<open>default\<close> returns it.
\<close>

definition updateHost :: "env \<Rightarrow> CFUpdateConfig \<Rightarrow> string \<Rightarrow> state \<Rightarrow> error option \<times> state" where
  "updateHost e config ip s =
     (let s0 = record_call (Call_New (ApiKey config) (Email config)) s;
          err = cloudflare_New e (ApiKey config) (Email config) in
      if err \<noteq> None then (err, s0)
      else
        let s1 = record_call (Call_ZoneIDByName (Zone config)) s0;
            (zoneID, err) = api_ZoneIDByName e (Zone config) in
        if err \<noteq> None then (err, s1)
        else
          let zone = zoneID;
              hostrec = \<lparr>lp_Name = Host config, lp_Type = ''A''\<rparr>;
              s2 = record_call (Call_ListDNSRecords zone hostrec) s1;
              (records, err) = api_ListDNSRecords e zone hostrec in
          if err \<noteq> None then (err, s2)
          else if length records = 0 then
            (let params = \<lparr>cp_Name = Host config, cp_Type = ''A'', cp_Content = ip\<rparr>;
                 s3 = record_call (Call_CreateDNSRecord zone params) s2;
                 err = api_CreateDNSRecord e zone params in
             if err \<noteq> None then (err, s3)
             else (None, Inc s3))
          else if length records = 1 then
            (if rec_Content (records ! 0) = ip then (None, s2)
             else
               let params = \<lparr>up_ID = rec_ID (records ! 0), up_Type = '''', up_Name = '''',
                             up_Content = ip\<rparr>;
                   s3 = record_call (Call_UpdateDNSRecord zone params) s2;
                   err = api_UpdateDNSRecord e zone params in
               if err \<noteq> None then (err, s3)
               else (None, Inc s3))
          else (err, s2))"

section \<open>The update loop\<close>

text \<open>
  One pass through the body of the \<^verbatim>\<open>for\<close> loop of \<^verbatim>\<open>updateHostLoop\<close>: the error of
  \<^verbatim>\<open>getIP\<close> is logged and nothing else, then \<^verbatim>\<open>updateHost\<close> is called with \<open>ip\<close>, its
  error is logged, and the loop sleeps.
\<close>

definition updateHostLoop_body :: "env \<Rightarrow> CFUpdateConfig \<Rightarrow> state \<Rightarrow> state" where
  "updateHostLoop_body e config s =
     (let ((ip, err), s1) = getIP e (IPService config) s;
          (err, s2) = updateHost e config ip s1
      in s2)"

text \<open>
  The loop has no exit: it runs until the process ends. \<open>updateHostLoop envs config n\<close>
  is the state after its first \<open>n\<close> passes, the outside world answering pass \<open>i\<close> as
  \<open>envs i\<close>.
\<close>

fun updateHostLoop :: "(nat \<Rightarrow> env) \<Rightarrow> CFUpdateConfig \<Rightarrow> nat \<Rightarrow> state \<Rightarrow> state" where
  "updateHostLoop envs config 0 s = s"
| "updateHostLoop envs config (Suc n) s =
     updateHostLoop_body (envs n) config (updateHostLoop envs config n s)"

section \<open>The HTTP handlers\<close>

text \<open>
  A response writer holds what has been written and whether writing fails.
  \<^verbatim>\<open>isAlive\<close> and \<^verbatim>\<open>isReady\<close> print a fixed text and log a write error.
\<close>

record ResponseWriter =
  written :: string
  write_err :: "error option"

definition Fprint :: "ResponseWriter \<Rightarrow> string \<Rightarrow> ResponseWriter \<times> error option" where
  "Fprint w str =
     (if write_err w = None then (w\<lparr>written := written w @ str\<rparr>, None)
      else (w, write_err w))"

definition isAlive :: "ResponseWriter \<Rightarrow> state \<Rightarrow> ResponseWriter \<times> state" where
  "isAlive w s = (let (w', err) = Fprint w ''Alive.'' in (w', s))"

definition isReady :: "ResponseWriter \<Rightarrow> state \<Rightarrow> ResponseWriter \<times> state" where
  "isReady w s = (let (w', err) = Fprint w ''Ready.'' in (w', s))"

section \<open>Observing a run\<close>

text \<open>The calls made between two states, and the calls that write to the registrar.\<close>

definition new_calls :: "state \<Rightarrow> state \<Rightarrow> call list" where
  "new_calls s s' = drop (length (calls s)) (calls s')"

fun is_write :: "call \<Rightarrow> bool" where
  "is_write (Call_CreateDNSRecord z p) = True"
| "is_write (Call_UpdateDNSRecord z p) = True"
| "is_write c = False"

fun is_New :: "call \<Rightarrow> bool" where
  "is_New (Call_New k m) = True"
| "is_New c = False"

text \<open>Whether a call is a write to the registrar that the registrar answers without error.\<close>

fun write_succeeds :: "env \<Rightarrow> call \<Rightarrow> bool" where
  "write_succeeds e (Call_CreateDNSRecord z p) = (api_CreateDNSRecord e z p = None)"
| "write_succeeds e (Call_UpdateDNSRecord z p) = (api_UpdateDNSRecord e z p = None)"
| "write_succeeds e c = False"

section \<open>Example inputs\<close>

text \<open>Flags that pass every check but, possibly, those on the zone, the host and the URL prefix.\<close>

definition example_flags :: "string \<Rightarrow> string \<Rightarrow> string \<Rightarrow> flags" where
  "example_flags z h u =
     \<lparr>flag_debug = False, flag_noJSON = False, flag_zone = z, flag_host = h,
      flag_email = ''me@example.com'', flag_apiKey = ''key'',
      flag_ipService = ''https://ip.shee.sh/'', flag_listen = '':9876'',
      flag_urlprefix = u, flag_showVersion = False, flag_sleepinterval = 300\<rparr>"

text \<open>
  A configuration, DNS records, a starting state, and an outside world in which every
  call succeeds but, possibly, the two write calls: the discovery service answers with the
  given status and body, the listing returns the given records, and the write calls
  return the given error.
\<close>

definition example_config :: CFUpdateConfig where
  "example_config =
     \<lparr>Zone = ''example.com'', Host = ''home.example.com'', Email = ''me@example.com'',
      ApiKey = ''key'', IPService = ''https://ip.shee.sh/''\<rparr>"

definition example_record :: "string \<Rightarrow> string \<Rightarrow> DNSRecord" where
  "example_record i c =
     \<lparr>rec_ID = i, rec_Type = ''A'', rec_Name = ''home.example.com'', rec_Content = c\<rparr>"

definition example_env :: "int \<Rightarrow> string \<Rightarrow> string \<Rightarrow> DNSRecord list \<Rightarrow> error option \<Rightarrow> env" where
  "example_env code status body records werr =
     \<lparr>Version = ''v1.0.0'',
      http_NewRequest = (\<lambda>m u. None),
      client_Do = (\<lambda>u. (\<lparr>StatusCode = code, Status = status, ReadAll_Body = (body, None)\<rparr>, None)),
      cloudflare_New = (\<lambda>k m. None),
      api_ZoneIDByName = (\<lambda>z. (''zone-1'', None)),
      api_ListDNSRecords = (\<lambda>z p. (records, None)),
      api_CreateDNSRecord = (\<lambda>z p. werr),
      api_UpdateDNSRecord = (\<lambda>z p. werr)\<rparr>"

definition example_state :: state where
  "example_state = \<lparr>updateCount = 0, calls = []\<rparr>"

section \<open>Startup validation: properties\<close>

lemma HasSuffix_iff_append: "HasSuffix s z \<longleftrightarrow> (\<exists>p. s = p @ z)"
proof
  assume h: "HasSuffix s z"
  then have "s = take (length s - length z) s @ z"
    unfolding HasSuffix_def by (metis append_take_drop_id)
  then show "\<exists>p. s = p @ z" ..
next
  assume "\<exists>p. s = p @ z"
  then show "HasSuffix s z"
    unfolding HasSuffix_def by auto
qed

lemma HasSuffix_append: "HasSuffix (p @ z) z"
  by (simp add: HasSuffix_def)

lemma HasSuffix_refl: "HasSuffix z z"
  by (simp add: HasSuffix_def)

text \<open>
  Claim C8. Whenever the zone, the host, the email or the API key is empty, the host does
  not end with the zone name, or a non-empty URL prefix does not start with a slash, the
  validation block of \<^verbatim>\<open>main\<close> exits with status 1; \<^verbatim>\<open>main\<close> then never reaches
  \<^verbatim>\<open>http.ListenAndServe\<close>, and its exit status is 1 unless \<^verbatim>\<open>-version\<close> was given
  (then \<^verbatim>\<open>main\<close> has printed the version and exited with status 0 before the validation
  block). A host that ends with the zone name passes the host/zone check.
\<close>

theorem startup_validation_rejects:
  assumes "flag_zone f = '''' \<or> flag_host f = '''' \<or> flag_email f = '''' \<or> flag_apiKey f = ''''
           \<or> \<not> HasSuffix (flag_host f) (flag_zone f)
           \<or> (flag_urlprefix f \<noteq> '''' \<and> hd (flag_urlprefix f) \<noteq> CHR ''/'')"
  shows "startup_validation f = Some 1
         \<and> (\<not> flag_showVersion f \<longrightarrow> main accepts f = Exit 1)
         \<and> (\<forall>c n rs l. main accepts f \<noteq> ListenAndServe c n rs l)
         \<and> (\<forall>p z. HasSuffix (p @ z) z)"
proof -
  have v: "startup_validation f = Some 1"
    using assms unfolding startup_validation_def
    by (auto simp: hd_conv_nth)
  have m: "\<not> flag_showVersion f \<longrightarrow> main accepts f = Exit 1"
    by (simp add: main_def v)
  have n: "\<forall>c n rs l. main accepts f \<noteq> ListenAndServe c n rs l"
    by (simp add: main_def v)
  show ?thesis using v m n HasSuffix_append by blast
qed

theorem startup_validation_rejects_witness:
  "\<not> HasSuffix ''foo.other.com'' ''example.com''
   \<and> startup_validation (example_flags ''example.com'' ''foo.other.com'' '''') = Some 1
   \<and> main (\<lambda>ps pat. True) (example_flags ''example.com'' ''foo.other.com'' '''') = Exit 1
   \<and> HasSuffix ''foo.example.com'' ''example.com''
   \<and> startup_validation (example_flags ''example.com'' ''foo.example.com'' '''') = None"
proof -
  have h: "\<not> HasSuffix ''foo.other.com'' ''example.com''"
    by (simp add: HasSuffix_def)
  have "\<not> HasSuffix (flag_host (example_flags ''example.com'' ''foo.other.com'' ''''))
            (flag_zone (example_flags ''example.com'' ''foo.other.com'' ''''))"
    using h by (simp add: example_flags_def)
  then have r: "startup_validation (example_flags ''example.com'' ''foo.other.com'' '''') = Some 1
      \<and> (\<not> flag_showVersion (example_flags ''example.com'' ''foo.other.com'' '''')
           \<longrightarrow> main (\<lambda>ps pat. True) (example_flags ''example.com'' ''foo.other.com'' '''') = Exit 1)"
    using startup_validation_rejects [of "example_flags ''example.com'' ''foo.other.com'' ''''"]
    by blast
  have p: "HasSuffix ''foo.example.com'' ''example.com''"
    using startup_validation_rejects [of "example_flags ''example.com'' ''foo.other.com'' ''''"] h
    by (simp add: HasSuffix_def)
  have q: "startup_validation (example_flags ''example.com'' ''foo.example.com'' '''') = None"
    by (simp add: startup_validation_def example_flags_def HasSuffix_def)
  show ?thesis using h r p q by (simp add: example_flags_def)
qed

text \<open>
  Claim C10. The host/zone check is \<^verbatim>\<open>strings.HasSuffix\<close> and nothing more: a host
  equal to the zone passes it, any host \<open>p @ z\<close> passes it whatever \<open>p\<close> is, and the
  check passes exactly for such hosts. With a non-empty zone and the other settings valid
  the whole validation passes for the host \<open>p @ z\<close>: unless \<^verbatim>\<open>-version\<close> was given,
  \<^verbatim>\<open>main\<close> does not exit through \<^verbatim>\<open>os.Exit\<close>, and when the multiplexer accepts the
  three routes the update loop and the server are started for that host. So for
  "notexample.com" in the zone "example.com".
\<close>

theorem host_zone_check_is_plain_suffix:
  "HasSuffix z z
   \<and> HasSuffix (p @ z) z
   \<and> (HasSuffix h z \<longleftrightarrow> (\<exists>q. h = q @ z))
   \<and> (z \<noteq> '''' \<and> flag_zone f = z \<and> flag_host f = p @ z \<and> flag_email f \<noteq> ''''
        \<and> flag_apiKey f \<noteq> '''' \<and> (flag_urlprefix f = '''' \<or> hd (flag_urlprefix f) = CHR ''/'')
      \<longrightarrow> startup_validation f = None
          \<and> (\<not> flag_showVersion f \<longrightarrow>
                (\<forall>status. main accepts f \<noteq> Exit status)
                \<and> (accepts [] (flag_urlprefix f @ ''/metrics'')
                    \<and> accepts [flag_urlprefix f @ ''/metrics''] (flag_urlprefix f @ ''/ready'')
                    \<and> accepts [flag_urlprefix f @ ''/metrics'', flag_urlprefix f @ ''/ready'']
                         (flag_urlprefix f @ ''/alive'')
                   \<longrightarrow> (\<exists>c n rs l. main accepts f = ListenAndServe c n rs l
                          \<and> Host c = p @ z \<and> Zone c = z))))"
proof -
  have a: "HasSuffix z z" by (rule HasSuffix_refl)
  have b: "HasSuffix (p @ z) z" by (rule HasSuffix_append)
  have c: "HasSuffix h z \<longleftrightarrow> (\<exists>q. h = q @ z)" by (rule HasSuffix_iff_append)
  have d: "startup_validation f = None"
    if "z \<noteq> ''''" "flag_zone f = z" "flag_host f = p @ z" "flag_email f \<noteq> ''''"
       "flag_apiKey f \<noteq> ''''" "flag_urlprefix f = '''' \<or> hd (flag_urlprefix f) = CHR ''/''"
    using that b unfolding startup_validation_def
    by (cases "flag_urlprefix f") auto
  show ?thesis using a b c d by (auto simp: main_def Let_def)
qed

theorem host_zone_check_is_plain_suffix_witness:
  "HasSuffix ''notexample.com'' ''example.com''
   \<and> startup_validation (example_flags ''example.com'' ''notexample.com'' '''') = None
   \<and> main (\<lambda>ps pat. True) (example_flags ''example.com'' ''notexample.com'' '''')
       = ListenAndServe \<lparr>Zone = ''example.com'', Host = ''notexample.com'', Email = ''me@example.com'',
            ApiKey = ''key'', IPService = ''https://ip.shee.sh/''\<rparr> 300000000000
            [''/metrics'', ''/ready'', ''/alive''] '':9876''
   \<and> main (\<lambda>ps pat. False) (example_flags ''example.com'' ''notexample.com'' ''/{'') = Panic"
proof -
  have s: "HasSuffix (''not'' @ ''example.com'') ''example.com''"
    using host_zone_check_is_plain_suffix [of "''example.com''" "''not''"] by blast
  have v: "startup_validation (example_flags ''example.com'' ''notexample.com'' '''') = None"
    using host_zone_check_is_plain_suffix
      [of "''example.com''" "''not''" _ "example_flags ''example.com'' ''notexample.com'' ''''"]
    by (simp add: example_flags_def)
  have w: "startup_validation (example_flags ''example.com'' ''notexample.com'' ''/{'') = None"
    using host_zone_check_is_plain_suffix
      [of "''example.com''" "''not''" _ "example_flags ''example.com'' ''notexample.com'' ''/{''"]
    by (simp add: example_flags_def)
  have t: "sleep_Duration 300 = 300000000000"
    by (simp add: sleep_Duration_def wrap_int64_def)
  show ?thesis using s v w t by (simp add: main_def Let_def example_flags_def)
qed

section \<open>The IP resolver: properties\<close>

lemma TrimLeft_drop: "\<exists>l. s = l @ TrimLeft s"
proof (induction s rule: TrimLeft.induct)
  case 1
  show ?case by simp
next
  case (2 c cs)
  show ?case
  proof (cases "leadingSpace (c # cs) = 0")
    case True
    then show ?thesis by simp
  next
    case False
    from 2 [OF False] obtain l
      where l: "drop (leadingSpace (c # cs) - 1) cs = l @ TrimLeft (drop (leadingSpace (c # cs) - 1) cs)"
      by blast
    have "c # cs = (c # take (leadingSpace (c # cs) - 1) cs) @ drop (leadingSpace (c # cs) - 1) cs"
      by simp
    with l have "c # cs = (c # take (leadingSpace (c # cs) - 1) cs @ l) @ TrimLeft (c # cs)"
      using False by simp
    then show ?thesis by blast
  qed
qed

lemma TrimRight_take: "\<exists>n. TrimRight s = take n s"
proof (induction s rule: TrimRight.induct)
  case (1 s)
  show ?case
  proof (cases "trailingSpace s = 0")
    case True
    then have "TrimRight s = take (length s) s" by (simp add: TrimRight.simps [of s])
    then show ?thesis by blast
  next
    case False
    from 1 [OF False] obtain n
      where "TrimRight (take (length s - trailingSpace s) s) = take n (take (length s - trailingSpace s) s)"
      by blast
    then have "TrimRight s = take (min n (length s - trailingSpace s)) s"
      using False by (simp add: TrimRight.simps [of s])
    then show ?thesis by blast
  qed
qed

lemma leadingSpace_TrimLeft: "leadingSpace (TrimLeft s) = 0"
proof (induction s rule: TrimLeft.induct)
  case 1
  show ?case by (simp add: leadingSpace_def)
next
  case (2 c cs)
  then show ?case by (cases "leadingSpace (c # cs) = 0") simp_all
qed

lemma trailingSpace_TrimRight: "trailingSpace (TrimRight s) = 0"
proof (induction s rule: TrimRight.induct)
  case (1 s)
  then show ?case
    by (cases "trailingSpace s = 0") (simp_all add: TrimRight.simps [of s])
qed

lemma take_take_eq:
  assumes "take (length enc) (take n s) = enc"
  shows "take (length enc) s = enc"
proof -
  have "length (take (length enc) (take n s)) = length enc" using assms by simp
  then have "length enc \<le> n" by simp
  then have "take (length enc) (take n s) = take (length enc) s" by (simp add: min_def)
  with assms show ?thesis by simp
qed

lemma leadingSpace_take:
  assumes "leadingSpace s = 0"
  shows "leadingSpace (take n s) = 0"
proof (cases "take n s")
  case Nil
  show ?thesis unfolding Nil by (simp add: leadingSpace_def)
next
  case (Cons c cs)
  then obtain ss where s: "s = c # ss" by (cases s; cases n) auto
  from assms s have a: "\<not> asciiSpace c"
    by (auto simp: leadingSpace_def split: if_splits)
  from assms s a have f: "find (\<lambda>enc. take (length enc) s = enc) unicodeSpace = None"
    by (auto simp: leadingSpace_def unicodeSpace_def split: option.splits if_splits)
  have "find (\<lambda>enc. take (length enc) (take n s) = enc) unicodeSpace = None"
    using f take_take_eq unfolding find_None_iff by blast
  with Cons a show ?thesis by (simp add: leadingSpace_def)
qed

lemma TrimSpace_segment: "\<exists>l r. s = l @ TrimSpace s @ r"
proof -
  obtain l where l: "s = l @ TrimLeft s" using TrimLeft_drop by blast
  obtain n where n: "TrimRight (TrimLeft s) = take n (TrimLeft s)" using TrimRight_take by blast
  have "TrimLeft s = TrimRight (TrimLeft s) @ drop n (TrimLeft s)" by (simp add: n)
  with l have "s = l @ TrimSpace s @ drop n (TrimLeft s)" by (simp add: TrimSpace_def)
  then show ?thesis by blast
qed

lemma TrimSpace_trimmed: "leadingSpace (TrimSpace s) = 0 \<and> trailingSpace (TrimSpace s) = 0"
proof -
  obtain n where n: "TrimRight (TrimLeft s) = take n (TrimLeft s)" using TrimRight_take by blast
  have "leadingSpace (take n (TrimLeft s)) = 0"
    by (rule leadingSpace_take) (rule leadingSpace_TrimLeft)
  then show ?thesis by (simp add: TrimSpace_def n [symmetric] trailingSpace_TrimRight)
qed

text \<open>
  Claim C5. When the request is built, \<^verbatim>\<open>client.Do\<close> answers with status 200 and the
  body is read without error, \<^verbatim>\<open>getIP\<close> returns \<^verbatim>\<open>strings.TrimSpace\<close> of the body and
  a nil error, whatever the body is: no check of its format is made. The result is a
  contiguous piece of the body that neither starts nor ends with white space. For the
  body "  203.0.113.7" followed by a line feed the result is "203.0.113.7", and a body
  that is no address at all is returned as it is.
\<close>

theorem getIP_ok_trims_body:
  assumes "http_NewRequest e ''GET'' url = None"
    and "client_Do e url = (res, None)"
    and "StatusCode res = 200"
    and "ReadAll_Body res = (b, None)"
  shows "fst (getIP e url s) = (TrimSpace b, None)
         \<and> (\<exists>l r. b = l @ TrimSpace b @ r)
         \<and> leadingSpace (TrimSpace b) = 0 \<and> trailingSpace (TrimSpace b) = 0"
  using assms TrimSpace_segment [of b] TrimSpace_trimmed [of b]
  by (simp add: getIP_def Let_def)

theorem getIP_ok_trims_body_witness:
  "fst (getIP (example_env 200 ''200 OK'' (''  203.0.113.7'' @ [CHR 0x0A]) [] None) ''https://ip.shee.sh/'' example_state)
     = (''203.0.113.7'', None)
   \<and> fst (getIP (example_env 200 ''200 OK'' ''<html>not an address</html>'' [] None) ''https://ip.shee.sh/'' example_state)
     = (''<html>not an address</html>'', None)"
proof -
  have t: "TrimSpace (''  203.0.113.7'' @ [CHR 0x0A]) = ''203.0.113.7''" by code_simp
  have u: "TrimSpace ''<html>not an address</html>'' = ''<html>not an address</html>''" by code_simp
  have a: "fst (getIP (example_env 200 ''200 OK'' (''  203.0.113.7'' @ [CHR 0x0A]) [] None) ''https://ip.shee.sh/'' example_state)
     = (TrimSpace (''  203.0.113.7'' @ [CHR 0x0A]), None)"
    using getIP_ok_trims_body [of "example_env 200 ''200 OK'' (''  203.0.113.7'' @ [CHR 0x0A]) [] None"
        "''https://ip.shee.sh/''" _ "''  203.0.113.7'' @ [CHR 0x0A]" example_state]
    by (simp add: example_env_def)
  have b: "fst (getIP (example_env 200 ''200 OK'' ''<html>not an address</html>'' [] None) ''https://ip.shee.sh/'' example_state)
     = (TrimSpace ''<html>not an address</html>'', None)"
    using getIP_ok_trims_body [of "example_env 200 ''200 OK'' ''<html>not an address</html>'' [] None"
        "''https://ip.shee.sh/''" _ "''<html>not an address</html>''" example_state]
    by (simp add: example_env_def)
  show ?thesis using a b t u by simp
qed

text \<open>
  Claim C6. When the response's status code is not 200, \<^verbatim>\<open>getIP\<close> returns the empty
  string and the error "Unexpected HTTP status " followed by the response's status text;
  and whenever \<^verbatim>\<open>getIP\<close> returns a nil error, \<^verbatim>\<open>client.Do\<close> returned no error and a
  response with status code 200.
\<close>

theorem getIP_status_not_200:
  "(http_NewRequest e ''GET'' url = None \<and> client_Do e url = (res, None) \<and> StatusCode res \<noteq> 200
      \<longrightarrow> fst (getIP e url s) = ('''', Some (Error (''Unexpected HTTP status '' @ Status res))))
   \<and> (snd (fst (getIP e url s)) = None
      \<longrightarrow> StatusCode (fst (client_Do e url)) = 200 \<and> snd (client_Do e url) = None)"
proof -
  obtain r derr where d: "client_Do e url = (r, derr)" by (cases "client_Do e url")
  obtain b rerr where b: "ReadAll_Body r = (b, rerr)" by (cases "ReadAll_Body r")
  show ?thesis by (auto simp: getIP_def Let_def errors_New_def d b split: if_splits)
qed

theorem getIP_status_not_200_witness:
  "fst (getIP (example_env 503 ''503 Service Unavailable'' ''busy'' [] None) ''https://ip.shee.sh/'' example_state)
     = ('''', Some (Error ''Unexpected HTTP status 503 Service Unavailable''))
   \<and> snd (fst (getIP (example_env 200 ''200 OK'' ''203.0.113.7'' [] None) ''https://ip.shee.sh/''
                 example_state)) = None
   \<and> StatusCode (fst (client_Do (example_env 200 ''200 OK'' ''203.0.113.7'' [] None)
                 ''https://ip.shee.sh/'')) = 200"
proof -
  have a: "fst (getIP (example_env 503 ''503 Service Unavailable'' ''busy'' [] None)
                  ''https://ip.shee.sh/'' example_state)
             = ('''', Some (Error ''Unexpected HTTP status 503 Service Unavailable''))"
    using getIP_status_not_200 [of "example_env 503 ''503 Service Unavailable'' ''busy'' [] None"
        "''https://ip.shee.sh/''"
        "\<lparr>StatusCode = 503, Status = ''503 Service Unavailable'', ReadAll_Body = (''busy'', None)\<rparr>"
        example_state]
    by (simp add: example_env_def)
  have n: "snd (fst (getIP (example_env 200 ''200 OK'' ''203.0.113.7'' [] None) ''https://ip.shee.sh/''
                 example_state)) = None"
    by (simp add: getIP_def Let_def example_env_def)
  have b: "StatusCode (fst (client_Do (example_env 200 ''200 OK'' ''203.0.113.7'' [] None)
                 ''https://ip.shee.sh/'')) = 200"
    using n getIP_status_not_200 [of "example_env 200 ''200 OK'' ''203.0.113.7'' [] None"
        "''https://ip.shee.sh/''" _ example_state]
    by blast
  show ?thesis using a n b by blast
qed

section \<open>The DNS reconciler: properties\<close>

lemmas run_defs = updateHost_def Let_def record_call_def Inc_def new_calls_def

text \<open>
  Claim C2. When the listing for the configured host and type "A" succeeds with no
  record, \<^verbatim>\<open>updateHost\<close> makes exactly one write call, a create call in the zone found
  with name the configured host, type "A" and content the given IP; when that call
  succeeds, \<^verbatim>\<open>updateHost\<close> returns nil and the update counter has grown by exactly one.
\<close>

theorem updateHost_zero_records_creates:
  assumes "cloudflare_New e (ApiKey config) (Email config) = None"
    and "api_ZoneIDByName e (Zone config) = (zoneID, None)"
    and "api_ListDNSRecords e zoneID \<lparr>lp_Name = Host config, lp_Type = ''A''\<rparr> = ([], None)"
  shows "filter is_write (new_calls s (snd (updateHost e config ip s)))
           = [Call_CreateDNSRecord zoneID \<lparr>cp_Name = Host config, cp_Type = ''A'', cp_Content = ip\<rparr>]
         \<and> (api_CreateDNSRecord e zoneID \<lparr>cp_Name = Host config, cp_Type = ''A'', cp_Content = ip\<rparr> = None
              \<longrightarrow> fst (updateHost e config ip s) = None
                  \<and> updateCount (snd (updateHost e config ip s)) = updateCount s + 1)"
  using assms by (simp add: run_defs)

theorem updateHost_zero_records_creates_witness:
  "filter is_write (new_calls example_state
      (snd (updateHost (example_env 200 ''200 OK'' ''203.0.113.7'' [] None) example_config
              ''203.0.113.7'' example_state)))
     = [Call_CreateDNSRecord ''zone-1''
          \<lparr>cp_Name = ''home.example.com'', cp_Type = ''A'', cp_Content = ''203.0.113.7''\<rparr>]
   \<and> fst (updateHost (example_env 200 ''200 OK'' ''203.0.113.7'' [] None) example_config
              ''203.0.113.7'' example_state) = None
   \<and> updateCount (snd (updateHost (example_env 200 ''200 OK'' ''203.0.113.7'' [] None)
              example_config ''203.0.113.7'' example_state)) = 1"
  using updateHost_zero_records_creates
    [where e = "example_env 200 ''200 OK'' ''203.0.113.7'' [] None" and config = example_config
       and zoneID = "''zone-1''" and ip = "''203.0.113.7''" and s = example_state]
  by (simp add: example_env_def example_config_def example_state_def)

text \<open>
  Claim C3. When the listing succeeds with exactly one record whose content equals the
  given IP, \<^verbatim>\<open>updateHost\<close> makes no create and no update call, leaves the update counter
  as it was and returns nil.
\<close>

theorem updateHost_one_record_same_ip:
  assumes "cloudflare_New e (ApiKey config) (Email config) = None"
    and "api_ZoneIDByName e (Zone config) = (zoneID, None)"
    and "api_ListDNSRecords e zoneID \<lparr>lp_Name = Host config, lp_Type = ''A''\<rparr> = ([r], None)"
    and "rec_Content r = ip"
  shows "filter is_write (new_calls s (snd (updateHost e config ip s))) = []
         \<and> updateCount (snd (updateHost e config ip s)) = updateCount s
         \<and> fst (updateHost e config ip s) = None"
  using assms by (simp add: run_defs)

theorem updateHost_one_record_same_ip_witness:
  "filter is_write (new_calls example_state
      (snd (updateHost
              (example_env 200 ''200 OK'' ''203.0.113.7'' [example_record ''id-1'' ''203.0.113.7''] None)
              example_config ''203.0.113.7'' example_state))) = []
   \<and> updateCount (snd (updateHost
              (example_env 200 ''200 OK'' ''203.0.113.7'' [example_record ''id-1'' ''203.0.113.7''] None)
              example_config ''203.0.113.7'' example_state)) = 0
   \<and> fst (updateHost
              (example_env 200 ''200 OK'' ''203.0.113.7'' [example_record ''id-1'' ''203.0.113.7''] None)
              example_config ''203.0.113.7'' example_state) = None"
  using updateHost_one_record_same_ip
    [where e = "example_env 200 ''200 OK'' ''203.0.113.7'' [example_record ''id-1'' ''203.0.113.7''] None"
       and config = example_config and zoneID = "''zone-1''" and ip = "''203.0.113.7''"
       and r = "example_record ''id-1'' ''203.0.113.7''" and s = example_state]
  by (simp add: example_env_def example_config_def example_state_def example_record_def)

text \<open>
  Claim C4. When the listing succeeds with exactly one record whose content differs from
  the given IP, \<^verbatim>\<open>updateHost\<close> makes exactly one write call, an update call with the ID
  of that record and the content set to the given IP, every other field of the
  parameters left empty; when that call succeeds, \<^verbatim>\<open>updateHost\<close> returns nil and the
  update counter has grown by exactly one.
\<close>

theorem updateHost_one_record_other_ip:
  assumes "cloudflare_New e (ApiKey config) (Email config) = None"
    and "api_ZoneIDByName e (Zone config) = (zoneID, None)"
    and "api_ListDNSRecords e zoneID \<lparr>lp_Name = Host config, lp_Type = ''A''\<rparr> = ([r], None)"
    and "rec_Content r \<noteq> ip"
  shows "filter is_write (new_calls s (snd (updateHost e config ip s)))
           = [Call_UpdateDNSRecord zoneID
                \<lparr>up_ID = rec_ID r, up_Type = '''', up_Name = '''', up_Content = ip\<rparr>]
         \<and> (api_UpdateDNSRecord e zoneID
                \<lparr>up_ID = rec_ID r, up_Type = '''', up_Name = '''', up_Content = ip\<rparr> = None
              \<longrightarrow> fst (updateHost e config ip s) = None
                  \<and> updateCount (snd (updateHost e config ip s)) = updateCount s + 1)"
  using assms by (simp add: run_defs)

theorem updateHost_one_record_other_ip_witness:
  "filter is_write (new_calls example_state
      (snd (updateHost
              (example_env 200 ''200 OK'' ''203.0.113.7'' [example_record ''id-1'' ''198.51.100.1''] None)
              example_config ''203.0.113.7'' example_state)))
     = [Call_UpdateDNSRecord ''zone-1''
          \<lparr>up_ID = ''id-1'', up_Type = '''', up_Name = '''', up_Content = ''203.0.113.7''\<rparr>]
   \<and> fst (updateHost
              (example_env 200 ''200 OK'' ''203.0.113.7'' [example_record ''id-1'' ''198.51.100.1''] None)
              example_config ''203.0.113.7'' example_state) = None
   \<and> updateCount (snd (updateHost
              (example_env 200 ''200 OK'' ''203.0.113.7'' [example_record ''id-1'' ''198.51.100.1''] None)
              example_config ''203.0.113.7'' example_state)) = 1"
  using updateHost_one_record_other_ip
    [where e = "example_env 200 ''200 OK'' ''203.0.113.7'' [example_record ''id-1'' ''198.51.100.1''] None"
       and config = example_config and zoneID = "''zone-1''" and ip = "''203.0.113.7''"
       and r = "example_record ''id-1'' ''198.51.100.1''" and s = example_state]
  by (simp add: example_env_def example_config_def example_state_def example_record_def)

text \<open>With two or more records nothing but the three reading calls happens, and the result is nil.\<close>

lemma updateHost_many_records:
  assumes "cloudflare_New e (ApiKey config) (Email config) = None"
    and "api_ZoneIDByName e (Zone config) = (zoneID, None)"
    and "api_ListDNSRecords e zoneID \<lparr>lp_Name = Host config, lp_Type = ''A''\<rparr> = (records, None)"
    and "2 \<le> length records"
  shows "updateHost e config ip s =
           (None, s\<lparr>calls := calls s @ [Call_New (ApiKey config) (Email config),
                      Call_ZoneIDByName (Zone config),
                      Call_ListDNSRecords zoneID \<lparr>lp_Name = Host config, lp_Type = ''A''\<rparr>]\<rparr>)"
  using assms by (auto simp: run_defs)

text \<open>
  Claim C1 says that with two or more records \<^verbatim>\<open>updateHost\<close> writes nothing, leaves the
  counter alone and returns a non-nil error. The \<^verbatim>\<open>default\<close> branch logs the error
  message and returns \<open>err\<close>, which at that point is the nil error of the successful
  listing: with two records the registrar is not written to, the counter stays 0, and
  the value returned is nil.
\<close>

theorem updateHost_two_records_returns_nil:
  "updateHost
     (example_env 200 ''200 OK'' ''203.0.113.7''
        [example_record ''id-1'' ''198.51.100.1'', example_record ''id-2'' ''198.51.100.2''] None)
     example_config ''203.0.113.7'' example_state
   = (None,
      \<lparr>updateCount = 0,
       calls = [Call_New ''key'' ''me@example.com'',
                Call_ZoneIDByName ''example.com'',
                Call_ListDNSRecords ''zone-1'' \<lparr>lp_Name = ''home.example.com'', lp_Type = ''A''\<rparr>]\<rparr>)"
  by (simp add: run_defs example_env_def example_config_def example_state_def)

section \<open>The update loop: properties\<close>

lemma getIP_New_calls: "filter is_New (calls (snd (getIP e url s))) = filter is_New (calls s)"
  by (simp add: getIP_def Let_def record_call_def split: prod.splits)

lemma updateHost_New_calls:
  "filter is_New (calls (snd (updateHost e config ip s)))
     = filter is_New (calls s) @ [Call_New (ApiKey config) (Email config)]"
proof -
  obtain zoneID zerr where z: "api_ZoneIDByName e (Zone config) = (zoneID, zerr)"
    by (cases "api_ZoneIDByName e (Zone config)")
  obtain records lerr where
    l: "api_ListDNSRecords e zoneID \<lparr>lp_Name = Host config, lp_Type = ''A''\<rparr> = (records, lerr)"
    by (cases "api_ListDNSRecords e zoneID \<lparr>lp_Name = Host config, lp_Type = ''A''\<rparr>")
  show ?thesis by (simp add: run_defs z l)
qed

lemma updateHostLoop_body_eq:
  "updateHostLoop_body e config s =
     snd (updateHost e config (fst (fst (getIP e (IPService config) s)))
            (snd (getIP e (IPService config) s)))"
  by (simp add: updateHostLoop_body_def split: prod.splits)

lemma getIP_error_empty:
  assumes "snd (fst (getIP e url s)) \<noteq> None"
  shows "fst (fst (getIP e url s)) = ''''"
proof -
  obtain r derr where d: "client_Do e url = (r, derr)" by (cases "client_Do e url")
  obtain b rerr where b: "ReadAll_Body r = (b, rerr)" by (cases "ReadAll_Body r")
  show ?thesis using assms by (auto simp: getIP_def Let_def d b split: if_splits)
qed

lemma updateHostLoop_body_New_calls:
  "filter is_New (calls (updateHostLoop_body e config s))
     = filter is_New (calls s) @ [Call_New (ApiKey config) (Email config)]"
  by (simp add: updateHostLoop_body_eq updateHost_New_calls getIP_New_calls)

lemma updateHostLoop_New_calls:
  "filter is_New (calls (updateHostLoop envs config n s))
     = filter is_New (calls s) @ replicate n (Call_New (ApiKey config) (Email config))"
  by (induction n) (simp_all add: updateHostLoop_body_New_calls replicate_append_same)

text \<open>
  Claim C7. Every pass of the loop calls \<^verbatim>\<open>updateHost\<close> with the string that \<^verbatim>\<open>getIP\<close>
  returned, whether or not \<^verbatim>\<open>getIP\<close> also returned an error; when it did, that string
  is empty and \<^verbatim>\<open>updateHost\<close> runs with the empty string. After \<open>n\<close> passes
  \<^verbatim>\<open>cloudflare.New\<close>, the first call of \<^verbatim>\<open>updateHost\<close>, has been made \<open>n\<close> more times,
  whatever the resolver and the registrar answered in each pass.
\<close>

theorem updateHostLoop_always_reconciles:
  "updateHostLoop_body e config s =
     snd (updateHost e config (fst (fst (getIP e (IPService config) s)))
            (snd (getIP e (IPService config) s)))
   \<and> (snd (fst (getIP e (IPService config) s)) \<noteq> None
       \<longrightarrow> updateHostLoop_body e config s =
             snd (updateHost e config '''' (snd (getIP e (IPService config) s))))
   \<and> filter is_New (calls (updateHostLoop envs config n s))
       = filter is_New (calls s) @ replicate n (Call_New (ApiKey config) (Email config))"
  using updateHostLoop_body_eq [of e config s] getIP_error_empty [of e "IPService config" s]
    updateHostLoop_New_calls [of envs config n s]
  by simp

theorem updateHostLoop_always_reconciles_witness:
  "snd (fst (getIP (example_env 503 ''503 Service Unavailable'' ''busy'' [] None)
               (IPService example_config) example_state)) \<noteq> None
   \<and> updateHostLoop_body (example_env 503 ''503 Service Unavailable'' ''busy'' [] None)
        example_config example_state
      = \<lparr>updateCount = 1,
         calls = [Call_Do ''https://ip.shee.sh/'' ''cfdnsupdater/v1.0.0'',
                  Call_New ''key'' ''me@example.com'',
                  Call_ZoneIDByName ''example.com'',
                  Call_ListDNSRecords ''zone-1'' \<lparr>lp_Name = ''home.example.com'', lp_Type = ''A''\<rparr>,
                  Call_CreateDNSRecord ''zone-1''
                    \<lparr>cp_Name = ''home.example.com'', cp_Type = ''A'', cp_Content = ''''\<rparr>]\<rparr>"
proof -
  have f: "snd (fst (getIP (example_env 503 ''503 Service Unavailable'' ''busy'' [] None)
               (IPService example_config) example_state)) \<noteq> None"
    by (simp add: getIP_def Let_def example_env_def errors_New_def)
  have g: "snd (getIP (example_env 503 ''503 Service Unavailable'' ''busy'' [] None)
               (IPService example_config) example_state)
            = \<lparr>updateCount = 0, calls = [Call_Do ''https://ip.shee.sh/'' ''cfdnsupdater/v1.0.0'']\<rparr>"
    by (simp add: getIP_def Let_def example_env_def example_config_def example_state_def
        record_call_def)
  have u: "snd (updateHost (example_env 503 ''503 Service Unavailable'' ''busy'' [] None)
                 example_config ''''
                 \<lparr>updateCount = 0, calls = [Call_Do ''https://ip.shee.sh/'' ''cfdnsupdater/v1.0.0'']\<rparr>)
      = \<lparr>updateCount = 1,
         calls = [Call_Do ''https://ip.shee.sh/'' ''cfdnsupdater/v1.0.0'',
                  Call_New ''key'' ''me@example.com'',
                  Call_ZoneIDByName ''example.com'',
                  Call_ListDNSRecords ''zone-1'' \<lparr>lp_Name = ''home.example.com'', lp_Type = ''A''\<rparr>,
                  Call_CreateDNSRecord ''zone-1''
                    \<lparr>cp_Name = ''home.example.com'', cp_Type = ''A'', cp_Content = ''''\<rparr>]\<rparr>"
    by (simp add: run_defs example_env_def example_config_def)
  from f have "updateHostLoop_body (example_env 503 ''503 Service Unavailable'' ''busy'' [] None)
        example_config example_state
      = snd (updateHost (example_env 503 ''503 Service Unavailable'' ''busy'' [] None) example_config ''''
          (snd (getIP (example_env 503 ''503 Service Unavailable'' ''busy'' [] None)
               (IPService example_config) example_state)))"
    using updateHostLoop_always_reconciles
      [of "example_env 503 ''503 Service Unavailable'' ''busy'' [] None" example_config example_state]
    by blast
  then have "updateHostLoop_body (example_env 503 ''503 Service Unavailable'' ''busy'' [] None)
        example_config example_state
      = \<lparr>updateCount = 1,
         calls = [Call_Do ''https://ip.shee.sh/'' ''cfdnsupdater/v1.0.0'',
                  Call_New ''key'' ''me@example.com'',
                  Call_ZoneIDByName ''example.com'',
                  Call_ListDNSRecords ''zone-1'' \<lparr>lp_Name = ''home.example.com'', lp_Type = ''A''\<rparr>,
                  Call_CreateDNSRecord ''zone-1''
                    \<lparr>cp_Name = ''home.example.com'', cp_Type = ''A'', cp_Content = ''''\<rparr>]\<rparr>"
    by (simp only: g u)
  with f show ?thesis by blast
qed

section \<open>The update counter\<close>

lemma write_succeeds_is_write: "write_succeeds e c \<Longrightarrow> is_write c"
  by (cases c) simp_all

lemma updateHost_counter:
  "updateCount (snd (updateHost e config ip s)) =
     updateCount s + (if list_ex (write_succeeds e) (new_calls s (snd (updateHost e config ip s))) then 1 else 0)"
proof -
  obtain zoneID zerr where z: "api_ZoneIDByName e (Zone config) = (zoneID, zerr)"
    by (cases "api_ZoneIDByName e (Zone config)")
  obtain records lerr where
    l: "api_ListDNSRecords e zoneID \<lparr>lp_Name = Host config, lp_Type = ''A''\<rparr> = (records, lerr)"
    by (cases "api_ListDNSRecords e zoneID \<lparr>lp_Name = Host config, lp_Type = ''A''\<rparr>")
  show ?thesis by (simp add: run_defs z l)
qed

lemma updateHost_error_counter:
  assumes "fst (updateHost e config ip s) \<noteq> None"
  shows "updateCount (snd (updateHost e config ip s)) = updateCount s"
proof -
  obtain zoneID zerr where z: "api_ZoneIDByName e (Zone config) = (zoneID, zerr)"
    by (cases "api_ZoneIDByName e (Zone config)")
  obtain records lerr where
    l: "api_ListDNSRecords e zoneID \<lparr>lp_Name = Host config, lp_Type = ''A''\<rparr> = (records, lerr)"
    by (cases "api_ListDNSRecords e zoneID \<lparr>lp_Name = Host config, lp_Type = ''A''\<rparr>")
  show ?thesis using assms by (simp add: run_defs z l split: if_splits)
qed

lemma updateHost_no_write_counter:
  assumes "filter is_write (new_calls s (snd (updateHost e config ip s))) = []"
  shows "updateCount (snd (updateHost e config ip s)) = updateCount s"
proof -
  have "\<not> list_ex (write_succeeds e) (new_calls s (snd (updateHost e config ip s)))"
    using assms write_succeeds_is_write
    by (auto simp: list_ex_iff filter_empty_conv)
  then show ?thesis using updateHost_counter [of e config ip s] by simp
qed

lemma getIP_counter: "updateCount (snd (getIP e url s)) = updateCount s"
  by (simp add: getIP_def Let_def record_call_def split: prod.splits)

lemma updateHostLoop_body_counter: "updateCount s \<le> updateCount (updateHostLoop_body e config s)"
  by (simp add: updateHostLoop_body_eq updateHost_counter getIP_counter)

lemma updateHostLoop_counter_step:
  "updateCount (updateHostLoop envs config n s) \<le> updateCount (updateHostLoop envs config (n + k) s)"
proof (induction k)
  case 0
  show ?case by simp
next
  case (Suc k)
  have "updateCount (updateHostLoop envs config (n + k) s)
          \<le> updateCount (updateHostLoop envs config (Suc (n + k)) s)"
    by (simp add: updateHostLoop_body_counter)
  with Suc show ?case by simp
qed

lemma updateHostLoop_counter_mono:
  assumes "n \<le> m"
  shows "updateCount (updateHostLoop envs config n s) \<le> updateCount (updateHostLoop envs config m s)"
  using updateHostLoop_counter_step [of envs config n s "m - n"] assms by simp

text \<open>
  Claim C9. One run of \<^verbatim>\<open>updateHost\<close> adds one to the update counter when it made a
  create or update call that succeeded, and nothing otherwise; the counter is unchanged
  when \<^verbatim>\<open>updateHost\<close> returns an error and when it made no write call. \<^verbatim>\<open>getIP\<close>,
  \<^verbatim>\<open>isAlive\<close> and \<^verbatim>\<open>isReady\<close> leave it unchanged. It never decreases in a pass of
  the loop, nor from \<open>n\<close> passes to \<open>m \<ge> n\<close> passes.
\<close>

theorem updateCount_monotone:
  "updateCount (snd (updateHost e config ip s))
     = updateCount s
       + (if list_ex (write_succeeds e) (new_calls s (snd (updateHost e config ip s))) then 1 else 0)
   \<and> (fst (updateHost e config ip s) \<noteq> None
       \<longrightarrow> updateCount (snd (updateHost e config ip s)) = updateCount s)
   \<and> (filter is_write (new_calls s (snd (updateHost e config ip s))) = []
       \<longrightarrow> updateCount (snd (updateHost e config ip s)) = updateCount s)
   \<and> updateCount (snd (getIP e url s)) = updateCount s
   \<and> snd (isAlive w s) = s
   \<and> snd (isReady w s) = s
   \<and> updateCount s \<le> updateCount (updateHostLoop_body e config s)
   \<and> (n \<le> m \<longrightarrow> updateCount (updateHostLoop envs config n s)
                    \<le> updateCount (updateHostLoop envs config m s))"
proof -
  have a: "snd (isAlive w s) = s" by (simp add: isAlive_def split: prod.splits)
  have r: "snd (isReady w s) = s" by (simp add: isReady_def split: prod.splits)
  show ?thesis
    using updateHost_counter [of e config ip s] updateHost_error_counter [of e config ip s]
      updateHost_no_write_counter [of s e config ip] getIP_counter [of e url s] a r
      updateHostLoop_body_counter [of s e config] updateHostLoop_counter_mono [of n m envs config s]
    by blast
qed

theorem updateCount_monotone_witness:
  "updateCount (snd (updateHost (example_env 200 ''200 OK'' ''203.0.113.7'' [] None) example_config
                       ''203.0.113.7'' example_state)) = 1
   \<and> fst (updateHost (example_env 200 ''200 OK'' ''203.0.113.7'' [] (Some (Error ''forbidden'')))
            example_config ''203.0.113.7'' example_state) \<noteq> None
   \<and> updateCount (snd (updateHost
            (example_env 200 ''200 OK'' ''203.0.113.7'' [] (Some (Error ''forbidden'')))
            example_config ''203.0.113.7'' example_state)) = 0
   \<and> filter is_write (new_calls example_state (snd (updateHost
            (example_env 200 ''200 OK'' ''203.0.113.7'' [example_record ''id-1'' ''203.0.113.7''] None)
            example_config ''203.0.113.7'' example_state))) = []
   \<and> updateCount (snd (updateHost
            (example_env 200 ''200 OK'' ''203.0.113.7'' [example_record ''id-1'' ''203.0.113.7''] None)
            example_config ''203.0.113.7'' example_state)) = 0
   \<and> Suc 0 \<le> Suc (Suc 0)
   \<and> updateCount (updateHostLoop (\<lambda>i. example_env 200 ''200 OK'' ''203.0.113.7'' [] None)
         example_config (Suc 0) example_state)
      \<le> updateCount (updateHostLoop (\<lambda>i. example_env 200 ''200 OK'' ''203.0.113.7'' [] None)
         example_config (Suc (Suc 0)) example_state)"
proof -
  have w: "list_ex (write_succeeds (example_env 200 ''200 OK'' ''203.0.113.7'' [] None))
      (new_calls example_state
         (snd (updateHost (example_env 200 ''200 OK'' ''203.0.113.7'' [] None) example_config
                 ''203.0.113.7'' example_state)))"
    by (simp add: run_defs example_env_def example_config_def example_state_def)
  have a: "updateCount (snd (updateHost (example_env 200 ''200 OK'' ''203.0.113.7'' [] None)
              example_config ''203.0.113.7'' example_state)) = updateCount example_state + 1"
    using w updateCount_monotone
      [where e = "example_env 200 ''200 OK'' ''203.0.113.7'' [] None" and config = example_config
         and ip = "''203.0.113.7''" and s = example_state]
    by simp
  have f: "fst (updateHost (example_env 200 ''200 OK'' ''203.0.113.7'' [] (Some (Error ''forbidden'')))
            example_config ''203.0.113.7'' example_state) \<noteq> None"
    by (simp add: run_defs example_env_def example_config_def example_state_def)
  have b: "updateCount (snd (updateHost
            (example_env 200 ''200 OK'' ''203.0.113.7'' [] (Some (Error ''forbidden'')))
            example_config ''203.0.113.7'' example_state)) = updateCount example_state"
    using f updateCount_monotone
      [where e = "example_env 200 ''200 OK'' ''203.0.113.7'' [] (Some (Error ''forbidden''))"
         and config = example_config and ip = "''203.0.113.7''" and s = example_state]
    by blast
  have n: "filter is_write (new_calls example_state (snd (updateHost
            (example_env 200 ''200 OK'' ''203.0.113.7'' [example_record ''id-1'' ''203.0.113.7''] None)
            example_config ''203.0.113.7'' example_state))) = []"
    by (simp add: run_defs example_env_def example_config_def example_state_def example_record_def)
  have c: "updateCount (snd (updateHost
            (example_env 200 ''200 OK'' ''203.0.113.7'' [example_record ''id-1'' ''203.0.113.7''] None)
            example_config ''203.0.113.7'' example_state)) = updateCount example_state"
    using n updateCount_monotone
      [where e = "example_env 200 ''200 OK'' ''203.0.113.7'' [example_record ''id-1'' ''203.0.113.7''] None"
         and config = example_config and ip = "''203.0.113.7''" and s = example_state]
    by blast
  have d: "updateCount (updateHostLoop (\<lambda>i. example_env 200 ''200 OK'' ''203.0.113.7'' [] None)
         example_config (Suc 0) example_state)
      \<le> updateCount (updateHostLoop (\<lambda>i. example_env 200 ''200 OK'' ''203.0.113.7'' [] None)
         example_config (Suc (Suc 0)) example_state)"
    using updateCount_monotone
      [where n = "Suc 0" and m = "Suc (Suc 0)"
         and envs = "\<lambda>i. example_env 200 ''200 OK'' ''203.0.113.7'' [] None"
         and config = example_config and s = example_state]
    by simp
  have z: "updateCount example_state = 0" by (simp add: example_state_def)
  show ?thesis using a f b n c d by (simp add: z)
qed

end
